theory Spec2Isabelle
  imports Complex_Main "HOL-Library.Word" "HOL-Library.Log_Nat" "HOL-Library.Multiset"
begin

section \<open>Data model of map-proxy\<close>

text \<open>
  A Go \<^verbatim>\<open>float64\<close>: a finite value (kept as the rational it denotes), an infinity or
  NaN. The sign of zero is not kept.
\<close>

datatype float64 = Finite rat | PosInf | NegInf | NaN

text \<open>
  \<^verbatim>\<open>type PeerPoint struct\<close> of \<^verbatim>\<open>map-proxy/main.go\<close>. \<^verbatim>\<open>Count\<close> is a Go \<^verbatim>\<open>int\<close>:
  it counts the elements of a slice, whose length is itself an \<^verbatim>\<open>int\<close>, so it never
  wraps and is modelled unbounded. The \<^verbatim>\<open>uint64\<close> fields wrap.
\<close>

record PeerPoint =
  Lat :: float64
  Lon :: float64
  Count :: int
  Income :: float64
  CPUCount :: "64 word"
  GPUCount :: "64 word"
  RAMSize :: "64 word"

text \<open>
  A value of the Go type \<^verbatim>\<open>map[string]PeerPoint\<close>: \<open>None\<close> is the nil map, \<open>Some m\<close> a
  map that was made (possibly with no entries).
\<close>

type_synonym peers = "string \<rightharpoonup> PeerPoint"
type_synonym peers_map = "peers option"

subsection \<open>The two-slot cache\<close>

text \<open>
  \<^verbatim>\<open>type cache struct { mu; green; blue }\<close>. Both methods hold \<^verbatim>\<open>c.mu\<close> for their whole
  body, so concurrent calls take effect one after the other in the order in which they get
  the lock: each method is one atomic step on the two slots.
\<close>

record cache =
  green :: peers_map
  blue :: peers_map

definition update :: "cache \<Rightarrow> peers_map \<Rightarrow> cache" where
  "update c ps =
     (if green c = None then c\<lparr>green := ps, blue := None\<rparr>
      else c\<lparr>blue := ps, green := None\<rparr>)"

definition get :: "cache \<Rightarrow> peers_map" where
  "get c = (if green c \<noteq> None then green c else blue c)"

text \<open>\<^verbatim>\<open>data := cache{green: peers}\<close> in \<^verbatim>\<open>main\<close>, and the zero value \<^verbatim>\<open>cache{}\<close>.\<close>

definition cache_init :: "peers_map \<Rightarrow> cache" where
  "cache_init ps = \<lparr>green = ps, blue = None\<rparr>"

definition cache_zero :: cache where
  "cache_zero = \<lparr>green = None, blue = None\<rparr>"

text \<open>
  A sequence of cache operations, in the order in which they get the lock. \<open>exec\<close> is
  the cache after the sequence; a \<open>Get\<close> reads and leaves the cache as it is.
  \<open>installed\<close> lists the arguments of the updates of a sequence, oldest first.
\<close>

datatype cache_op = Update peers_map | Get

fun apply_op :: "cache \<Rightarrow> cache_op \<Rightarrow> cache" where
  "apply_op c (Update ps) = update c ps"
| "apply_op c Get = c"

fun exec :: "cache \<Rightarrow> cache_op list \<Rightarrow> cache" where
  "exec c [] = c"
| "exec c (x # xs) = exec (apply_op c x) xs"

fun installed :: "cache_op list \<Rightarrow> peers_map list" where
  "installed [] = []"
| "installed (Update ps # xs) = ps # installed xs"
| "installed (Get # xs) = installed xs"

subsection \<open>Arbitrary-precision floats (\<^verbatim>\<open>math/big\<close>)\<close>

text \<open>
  A finite \<^verbatim>\<open>big.Float\<close> is kept as the rational it denotes. \<^verbatim>\<open>big.NewFloat\<close> gives
  its result precision 53 and rounding mode to-nearest-even; \<^verbatim>\<open>SetInt\<close> and \<^verbatim>\<open>Quo\<close> on
  such a receiver round the exact result to 53 bits of mantissa. The exponent of a
  \<^verbatim>\<open>big.Float\<close> is a 32-bit integer; values beyond that range are not modelled.
\<close>

definition round_half_even :: "rat \<Rightarrow> int" where
  "round_half_even x =
     (let f = \<lfloor>x\<rfloor>; d = x - of_int f
      in if d < 1 / 2 then f else if 1 / 2 < d then f + 1
         else if even f then f else f + 1)"

definition pow2 :: "int \<Rightarrow> rat" where
  "pow2 e = (if 0 \<le> e then 2 ^ nat e else 1 / 2 ^ nat (- e))"

text \<open>The binary exponent \<open>e\<close> of a non-zero \<open>x\<close>: \<open>2 ^ (e - 1) \<le> \<bar>x\<bar> < 2 ^ e\<close>.\<close>

definition binexp :: "rat \<Rightarrow> int" where
  "binexp x =
     (let (p, q) = quotient_of \<bar>x\<bar>; e0 = bitlen p - bitlen q
      in if \<bar>x\<bar> < pow2 e0 then e0 else e0 + 1)"

definition round_prec :: "nat \<Rightarrow> rat \<Rightarrow> rat" where
  "round_prec prec x =
     (if x = 0 then 0
      else let ulp = pow2 (binexp x - int prec)
           in sgn x * of_int (round_half_even (\<bar>x\<bar> / ulp)) * ulp)"

definition Float_SetInt :: "int \<Rightarrow> rat" where
  "Float_SetInt x = round_prec 53 (of_int x)"

definition Float_Quo :: "rat \<Rightarrow> rat \<Rightarrow> rat" where
  "Float_Quo x y = round_prec 53 (x / y)"

text \<open>
  \<^verbatim>\<open>(*Float).Float64\<close>: the nearest \<^verbatim>\<open>float64\<close>. The normal range of \<^verbatim>\<open>float64\<close> is
  \<open>2 ^ -1022 \<le> \<bar>x\<bar> < 2 ^ 1024\<close>, that is a binary exponent from \<open>-1021\<close> to \<open>1024\<close>;
  below it the spacing is \<open>2 ^ -1074\<close>, above it the result is an infinity.
\<close>

definition Float_Float64 :: "rat \<Rightarrow> float64" where
  "Float_Float64 x =
     (if x = 0 then Finite 0
      else if binexp x \<le> - 1022
      then Finite (of_int (round_half_even (x * 2 ^ 1074)) / 2 ^ 1074)
      else let r = round_prec 53 x
           in if binexp r \<le> 1024 then Finite r
              else if 0 < x then PosInf else NegInf)"

text \<open>\<^verbatim>\<open>params.Ether\<close> of go-ethereum, the number of wei in one ether.\<close>

definition Ether :: rat where
  "Ether = 10 ^ 18"

definition f64_nonneg :: "float64 \<Rightarrow> bool" where
  "f64_nonneg v = (case v of Finite r \<Rightarrow> 0 \<le> r | PosInf \<Rightarrow> True | NegInf \<Rightarrow> False | NaN \<Rightarrow> False)"

subsection \<open>\<^verbatim>\<open>loadDeals\<close>\<close>

text \<open>
  What the accessors of one deal of the ledger's answer return: \<^verbatim>\<open>Benchmarks.CPUCores()\<close>,
  \<^verbatim>\<open>GetBenchmarks().GPUCount()\<close>, \<^verbatim>\<open>GetBenchmarks().RAMSize()\<close> (all \<^verbatim>\<open>uint64\<close>) and
  \<^verbatim>\<open>GetPrice().Unwrap()\<close> (a \<^verbatim>\<open>*big.Int\<close>, signed and unbounded).
\<close>

record deal =
  deal_CPUCores :: "64 word"
  deal_GPUCount :: "64 word"
  deal_RAMSize :: "64 word"
  deal_Price :: int

text \<open>A Go \<^verbatim>\<open>error\<close> value, by its message.\<close>

type_synonym go_error = string

text \<open>The zero value \<^verbatim>\<open>PeerPoint{}\<close>.\<close>

definition PeerPoint_zero :: PeerPoint where
  "PeerPoint_zero =
     \<lparr>Lat = Finite 0, Lon = Finite 0, Count = 0, Income = Finite 0,
      CPUCount = 0, GPUCount = 0, RAMSize = 0\<rparr>"

text \<open>
  The body of \<^verbatim>\<open>for _, deal := range deals.GetDeals()\<close>, on the pair of \<^verbatim>\<open>p\<close> and
  \<^verbatim>\<open>income\<close>. The memory size is assigned, the other fields are added to.
\<close>

fun deals_loop :: "deal list \<Rightarrow> PeerPoint \<times> int \<Rightarrow> PeerPoint \<times> int" where
  "deals_loop [] (p, income) = (p, income)"
| "deals_loop (d # ds) (p, income) =
     deals_loop ds
       (p\<lparr>Count := Count p + 1,
          CPUCount := CPUCount p + deal_CPUCores d,
          GPUCount := GPUCount p + deal_GPUCount d,
          RAMSize := deal_RAMSize d\<rparr>,
        income + deal_Price d)"

text \<open>
  \<^verbatim>\<open>loadDeals(ctx, dwh, addr)\<close>. The ledger client is the function \<open>dwh\<close> from the address
  asked for to the answer of \<^verbatim>\<open>dwh.GetDeals\<close> (an error, or the deals).
\<close>

definition loadDeals :: "('a \<Rightarrow> go_error + deal list) \<Rightarrow> 'a \<Rightarrow> go_error + PeerPoint" where
  "loadDeals dwh addr =
     (case dwh addr of
        Inl err \<Rightarrow> Inl err
      | Inr deals \<Rightarrow>
          (let (p, income) = deals_loop deals (PeerPoint_zero, 0);
               perHour = income * 3600;
               perHourF = Float_SetInt perHour;
               total = Float_Quo perHourF Ether
           in Inr (p\<lparr>Income := Float_Float64 total\<rparr>)))"

subsection \<open>\<^verbatim>\<open>loadPeersData\<close>\<close>

text \<open>
  \<^verbatim>\<open>strings.Split(addr, "//")\<close>: the pieces of \<open>addr\<close> between the occurrences of the
  separator, found from the left and not overlapping. There is always at least one piece.
\<close>

fun Split_slashes :: "string \<Rightarrow> string list" where
  "Split_slashes [] = [[]]"
| "Split_slashes (c # s) =
     (if c = CHR ''/'' \<and> (case s of [] \<Rightarrow> False | d # _ \<Rightarrow> d = CHR ''/'')
      then [] # Split_slashes (tl s)
      else (case Split_slashes s of
              [] \<Rightarrow> [[c]]
            | p # ps \<Rightarrow> (c # p) # ps))"

text \<open>
  A failure of a cycle: an \<^verbatim>\<open>error\<close> returned, or a run-time panic (here the index
  \<^verbatim>\<open>parts[1]\<close> out of range), which ends the process.
\<close>

datatype failure = Error go_error | Panic

text \<open>
  A server of the directory's answer, by the string \<^verbatim>\<open>srv.PublicAddr.Addr.Addr\<close>; the
  nested messages are taken to be present.
\<close>

record server =
  PublicAddr :: string

text \<open>
  The fields of a \<^verbatim>\<open>geoip2.City\<close> record that the programs read:
  \<^verbatim>\<open>Location.Latitude\<close>, \<^verbatim>\<open>Location.Longitude\<close>, \<^verbatim>\<open>City.Names["en"]\<close> and
  \<^verbatim>\<open>Country.Names["en"]\<close> (the empty string when the name is missing).
\<close>

record city =
  Latitude :: float64
  Longitude :: float64
  City_Names_en :: string
  Country_Names_en :: string

text \<open>
  The pair \<^verbatim>\<open>(rec, err)\<close> that \<^verbatim>\<open>db.City(ip)\<close> returns: a record and no error, or an error
  together with whatever record pointer came with it (nil is \<open>None\<close>).
\<close>

datatype city_result = CityOk city | CityErr "city option" go_error

text \<open>
  The collaborators of one refresh cycle, as the answers they give in that cycle:
  \<^verbatim>\<open>rv.Info\<close> (the \<^verbatim>\<open>State\<close> map as the list of its entries in the order in which
  \<^verbatim>\<open>range\<close> visits them, which Go leaves unspecified), \<^verbatim>\<open>dwh.GetDeals\<close> by the address
  asked for, \<^verbatim>\<open>common.HexToAddress\<close>, \<^verbatim>\<open>Address.Hex\<close>, \<^verbatim>\<open>net.ParseIP\<close> and \<^verbatim>\<open>db.City\<close>.
\<close>

record ('a, 'ip) env =
  rv_Info :: "go_error + (string \<times> server list) list"
  dwh_GetDeals :: "'a \<Rightarrow> go_error + deal list"
  HexToAddress :: "string \<Rightarrow> 'a"
  Hex :: "'a \<Rightarrow> string"
  ParseIP :: "string \<Rightarrow> 'ip"
  db_City :: "'ip \<Rightarrow> city_result"

text \<open>
  One pass of the inner loop body \<^verbatim>\<open>for _, srv := range state.GetServers()\<close> for the
  entry with key \<open>addr\<close>: \<open>None\<close> is a \<^verbatim>\<open>continue\<close> (the map is left as it is).
\<close>

definition server_step ::
  "('a, 'ip) env \<Rightarrow> string \<Rightarrow> server \<Rightarrow> peers \<Rightarrow> failure + peers" where
  "server_step e addr srv ps =
     (let parts = Split_slashes addr
      in if length parts \<le> 1 then Inl Panic
         else let peerEth = HexToAddress e (parts ! 1)
              in case loadDeals (dwh_GetDeals e) peerEth of
                   Inl err \<Rightarrow> Inr ps
                 | Inr point \<Rightarrow>
                     (case db_City e (ParseIP e (PublicAddr srv)) of
                        CityErr r err \<Rightarrow> Inr ps
                      | CityOk r \<Rightarrow>
                          Inr (ps(Hex e peerEth \<mapsto>
                                 point\<lparr>Lat := Latitude r, Lon := Longitude r\<rparr>))))"

fun servers_loop ::
  "('a, 'ip) env \<Rightarrow> string \<Rightarrow> server list \<Rightarrow> peers \<Rightarrow> failure + peers" where
  "servers_loop e addr [] ps = Inr ps"
| "servers_loop e addr (srv # srvs) ps =
     (case server_step e addr srv ps of
        Inl f \<Rightarrow> Inl f
      | Inr ps' \<Rightarrow> servers_loop e addr srvs ps')"

fun state_loop ::
  "('a, 'ip) env \<Rightarrow> (string \<times> server list) list \<Rightarrow> peers \<Rightarrow> failure + peers" where
  "state_loop e [] ps = Inr ps"
| "state_loop e ((addr, srvs) # rest) ps =
     (case servers_loop e addr srvs ps of
        Inl f \<Rightarrow> Inl f
      | Inr ps' \<Rightarrow> state_loop e rest ps')"

text \<open>
  \<^verbatim>\<open>loadPeersData(ctx)\<close> of the current \<^verbatim>\<open>map-proxy/main.go\<close>: \<^verbatim>\<open>(nil, err)\<close> when the
  directory query fails, \<^verbatim>\<open>(peers, nil)\<close> otherwise.
\<close>

definition loadPeersData :: "('a, 'ip) env \<Rightarrow> failure + peers" where
  "loadPeersData e =
     (case rv_Info e of
        Inl err \<Rightarrow> Inl (Error err)
      | Inr info \<Rightarrow> state_loop e info Map.empty)"

subsection \<open>\<^verbatim>\<open>main\<close>: start, ticks and requests\<close>

text \<open>
  The process: running with its cache, ended by \<^verbatim>\<open>os.Exit\<close> or by the return of \<^verbatim>\<open>main\<close>
  (with the exit status), or ended by a panic.
\<close>

datatype ('c) process = Running 'c | Exited int | Crashed

text \<open>
  The start of \<^verbatim>\<open>main\<close>: the first load; when it fails \<^verbatim>\<open>main\<close> returns before the
  endpoint is started, otherwise the cache is built around the loaded map.
\<close>

definition main_start :: "('a, 'ip) env \<Rightarrow> cache process" where
  "main_start e =
     (case loadPeersData e of
        Inl (Error err) \<Rightarrow> Exited 0
      | Inl Panic \<Rightarrow> Crashed
      | Inr ps \<Rightarrow> Running (cache_init (Some ps)))"

text \<open>
  One turn of the \<^verbatim>\<open>for { select { ... } }\<close> loop: the context is done, or the ticker
  fires and the collaborators answer as \<open>e\<close> says during that cycle.
\<close>

datatype ('a, 'ip) event = CtxDone | Tick "('a, 'ip) env"

fun main_step :: "cache process \<Rightarrow> ('a, 'ip) event \<Rightarrow> cache process" where
  "main_step (Running c) CtxDone = Exited 0"
| "main_step (Running c) (Tick e) =
     (case loadPeersData e of
        Inl (Error err) \<Rightarrow> Running c
      | Inl Panic \<Rightarrow> Crashed
      | Inr ps \<Rightarrow> Running (update c (Some ps)))"
| "main_step (Exited n) ev = Exited n"
| "main_step Crashed ev = Crashed"

fun main_loop :: "cache process \<Rightarrow> ('a, 'ip) event list \<Rightarrow> cache process" where
  "main_loop p [] = p"
| "main_loop p (ev # evs) = main_loop (main_step p ev) evs"

text \<open>
  \<^verbatim>\<open>json.Marshal(points)\<close> of Go's \<^verbatim>\<open>encoding/json\<close>, by the top-level shape of its
  result: a nil map is encoded as the JSON value \<^verbatim>\<open>null\<close>, a map that was made as a JSON
  object with one member per key, and a \<^verbatim>\<open>float64\<close> that is an infinity or NaN makes the
  call fail. The encoding of the members is not modelled.
\<close>

datatype json = JNull | JObject peers

definition f64_finite :: "float64 \<Rightarrow> bool" where
  "f64_finite v = (case v of Finite r \<Rightarrow> True | PosInf \<Rightarrow> False | NegInf \<Rightarrow> False | NaN \<Rightarrow> False)"

definition marshalable :: "PeerPoint \<Rightarrow> bool" where
  "marshalable p = (f64_finite (Lat p) \<and> f64_finite (Lon p) \<and> f64_finite (Income p))"

definition json_Marshal :: "peers_map \<Rightarrow> go_error + json" where
  "json_Marshal ps =
     (case ps of
        None \<Rightarrow> Inr JNull
      | Some m \<Rightarrow>
          if \<exists>p \<in> ran m. \<not> marshalable p then Inl ''json: unsupported value''
          else Inr (JObject m))"

text \<open>
  The handler of \<^verbatim>\<open>/\<close>: \<^verbatim>\<open>points := data.get(); b, _ := json.Marshal(points); w.Write(b)\<close>.
  The error of \<^verbatim>\<open>Marshal\<close> is dropped; \<^verbatim>\<open>b\<close> is then nil and the body is empty.
\<close>

datatype http_body = EmptyBody | JsonBody json

definition handler :: "cache \<Rightarrow> http_body" where
  "handler c = (case json_Marshal (get c) of Inl err \<Rightarrow> EmptyBody | Inr b \<Rightarrow> JsonBody b)"

text \<open>
  What a request gets from the process: the handler's body while the process runs,
  nothing once it has ended. (The HTTP listener itself is taken to be up: its failure,
  which ends the process through \<^verbatim>\<open>log.Fatal\<close>, is not part of the model.)
\<close>

definition serve :: "cache process \<Rightarrow> http_body option" where
  "serve p = (case p of Running c \<Rightarrow> Some (handler c) | Exited n \<Rightarrow> None | Crashed \<Rightarrow> None)"

subsection \<open>The peer, key and record of one pass of the loop\<close>

text \<open>
  Names for what one pass of the loop body of \<^verbatim>\<open>loadPeersData\<close> computes, used to state
  what the snapshot holds: whether \<^verbatim>\<open>parts[1]\<close> exists for a key of the \<^verbatim>\<open>State\<close> map,
  the address \<^verbatim>\<open>peerEth\<close> and the key \<^verbatim>\<open>peerEth.Hex()\<close> under which the pass writes.
\<close>

definition wf_addr :: "string \<Rightarrow> bool" where
  "wf_addr addr = (1 < length (Split_slashes addr))"

definition peer_addr :: "('a, 'ip) env \<Rightarrow> string \<Rightarrow> 'a" where
  "peer_addr e addr = HexToAddress e (Split_slashes addr ! 1)"

definition peer_key :: "('a, 'ip) env \<Rightarrow> string \<Rightarrow> string" where
  "peer_key e addr = Hex e (peer_addr e addr)"

text \<open>
  The record that the pass for server \<open>srv\<close> of the entry \<open>addr\<close> writes: none when the
  ledger query or the geolocation lookup fails.
\<close>

definition resolved :: "('a, 'ip) env \<Rightarrow> string \<Rightarrow> server \<Rightarrow> PeerPoint option" where
  "resolved e addr srv =
     (case loadDeals (dwh_GetDeals e) (peer_addr e addr) of
        Inl err \<Rightarrow> None
      | Inr point \<Rightarrow>
          (case db_City e (ParseIP e (PublicAddr srv)) of
             CityErr r err \<Rightarrow> None
           | CityOk r \<Rightarrow> Some (point\<lparr>Lat := Latitude r, Lon := Longitude r\<rparr>)))"

text \<open>
  The record that the passes for the servers of one entry leave under the entry's key:
  the one of the last server for which both lookups succeed, none when there is no such
  server.
\<close>

fun entry_record :: "('a, 'ip) env \<Rightarrow> string \<Rightarrow> server list \<Rightarrow> PeerPoint option" where
  "entry_record e addr [] = None"
| "entry_record e addr (srv # srvs) =
     (case entry_record e addr srvs of
        Some v \<Rightarrow> Some v
      | None \<Rightarrow> resolved e addr srv)"

text \<open>The effect of the passes for one entry of the \<^verbatim>\<open>State\<close> map on the outcome so far.\<close>

definition entry_step ::
  "('a, 'ip) env \<Rightarrow> string \<times> server list \<Rightarrow> failure + peers \<Rightarrow> failure + peers" where
  "entry_step e x r =
     (case r of Inl f \<Rightarrow> Inl f | Inr ps \<Rightarrow> servers_loop e (fst x) (snd x) ps)"

subsection \<open>rv-mon: counting servers per geohash\<close>

text \<open>
  The two maps that the loop of \<^verbatim>\<open>main\<close> in rv-mon fills, \<^verbatim>\<open>pointCounters\<close> and
  \<^verbatim>\<open>nameCache\<close>, and the part of the loop body after the lookup. \<open>enc\<close> is
  \<^verbatim>\<open>geohash.Encode\<close>.
\<close>

type_synonym points = "(string \<rightharpoonup> int) \<times> (string \<rightharpoonup> string)"

definition count_point :: "(float64 \<Rightarrow> float64 \<Rightarrow> string) \<Rightarrow> city \<Rightarrow> points \<Rightarrow> points" where
  "count_point enc r st =
     (let pointEncoded = enc (Latitude r) (Longitude r);
          name = (if 0 < length (City_Names_en r) then City_Names_en r
                  else Country_Names_en r);
          nameCache = (snd st)(pointEncoded \<mapsto> name)
      in case fst st pointEncoded of
           Some n \<Rightarrow> ((fst st)(pointEncoded \<mapsto> n + 1), nameCache)
         | None \<Rightarrow> ((fst st)(pointEncoded \<mapsto> 1), nameCache))"

text \<open>
  The loop body of \<^verbatim>\<open>rv-mon/main.go\<close>: a failed lookup is logged and the pass goes on
  with the record pointer that came with the error (a nil pointer panics at
  \<^verbatim>\<open>rec.Location\<close>).
\<close>

definition rv_mon_step ::
  "(float64 \<Rightarrow> float64 \<Rightarrow> string) \<Rightarrow> (string \<Rightarrow> 'ip) \<Rightarrow> ('ip \<Rightarrow> city_result) \<Rightarrow>
   server \<Rightarrow> points \<Rightarrow> failure + points" where
  "rv_mon_step enc parseIP dbCity srv st =
     (case dbCity (parseIP (PublicAddr srv)) of
        CityOk r \<Rightarrow> Inr (count_point enc r st)
      | CityErr None err \<Rightarrow> Inl Panic
      | CityErr (Some r) err \<Rightarrow> Inr (count_point enc r st))"

text \<open>
  The loop body of the other revision of rv-mon (\<^verbatim>\<open>unnamed/part_000\<close>): a failed lookup
  is logged and the pass ends with \<^verbatim>\<open>continue\<close>.
\<close>

definition rv_mon_step_part000 ::
  "(float64 \<Rightarrow> float64 \<Rightarrow> string) \<Rightarrow> (string \<Rightarrow> 'ip) \<Rightarrow> ('ip \<Rightarrow> city_result) \<Rightarrow>
   server \<Rightarrow> points \<Rightarrow> failure + points" where
  "rv_mon_step_part000 enc parseIP dbCity srv st =
     (case dbCity (parseIP (PublicAddr srv)) of
        CityOk r \<Rightarrow> Inr (count_point enc r st)
      | CityErr r err \<Rightarrow> Inr st)"

text \<open>
  The nested loops \<^verbatim>\<open>for _, state := range info.GetState()\<close>,
  \<^verbatim>\<open>for _, srv := range state.GetServers()\<close> visit the servers of all entries one after
  the other, starting from two empty maps.
\<close>

fun points_loop ::
  "(server \<Rightarrow> points \<Rightarrow> failure + points) \<Rightarrow> server list \<Rightarrow> points \<Rightarrow> failure + points" where
  "points_loop step [] st = Inr st"
| "points_loop step (srv # srvs) st =
     (case step srv st of
        Inl f \<Rightarrow> Inl f
      | Inr st' \<Rightarrow> points_loop step srvs st')"

definition rv_mon_main ::
  "(float64 \<Rightarrow> float64 \<Rightarrow> string) \<Rightarrow> (string \<Rightarrow> 'ip) \<Rightarrow> ('ip \<Rightarrow> city_result) \<Rightarrow>
   (string \<times> server list) list \<Rightarrow> failure + points" where
  "rv_mon_main enc parseIP dbCity info =
     points_loop (rv_mon_step enc parseIP dbCity) (concat (map snd info))
       (Map.empty, Map.empty)"

definition rv_mon_main_part000 ::
  "(float64 \<Rightarrow> float64 \<Rightarrow> string) \<Rightarrow> (string \<Rightarrow> 'ip) \<Rightarrow> ('ip \<Rightarrow> city_result) \<Rightarrow>
   (string \<times> server list) list \<Rightarrow> failure + points" where
  "rv_mon_main_part000 enc parseIP dbCity info =
     points_loop (rv_mon_step_part000 enc parseIP dbCity) (concat (map snd info))
       (Map.empty, Map.empty)"

subsection \<open>Concrete cycles\<close>

text \<open>
  Environments of single cycles, used to run the definitions on concrete inputs. Addresses
  and IP addresses are kept as the strings they are parsed from.
\<close>

definition deals_example :: "deal list" where
  "deals_example =
     [\<lparr>deal_CPUCores = 1, deal_GPUCount = 0, deal_RAMSize = 4, deal_Price = 5 * 10 ^ 17\<rparr>,
      \<lparr>deal_CPUCores = 2, deal_GPUCount = 1, deal_RAMSize = 8, deal_Price = 5 * 10 ^ 17\<rparr>]"

definition city_zero :: city where
  "city_zero =
     \<lparr>Latitude = Finite 0, Longitude = Finite 0, City_Names_en = [], Country_Names_en = []\<rparr>"

definition city_moscow :: city where
  "city_moscow =
     \<lparr>Latitude = Finite (5575 / 100), Longitude = Finite (3762 / 100),
      City_Names_en = ''Moscow'', Country_Names_en = ''Russia''\<rparr>"

definition city_berlin :: city where
  "city_berlin =
     \<lparr>Latitude = Finite (5252 / 100), Longitude = Finite (1340 / 100),
      City_Names_en = ''Berlin'', Country_Names_en = ''Germany''\<rparr>"

definition deal_a :: deal where
  "deal_a = \<lparr>deal_CPUCores = 2, deal_GPUCount = 0, deal_RAMSize = 4, deal_Price = 0\<rparr>"

definition deal_b :: deal where
  "deal_b = \<lparr>deal_CPUCores = 1, deal_GPUCount = 1, deal_RAMSize = 8, deal_Price = 0\<rparr>"

text \<open>
  Two peers with one deal each, both located in the same place, and the records that
  \<^verbatim>\<open>loadPeersData\<close> builds for them.
\<close>

definition state_two_peers :: "(string \<times> server list) list" where
  "state_two_peers =
     [(''tcp//0xA'', [\<lparr>PublicAddr = ''10.0.0.1''\<rparr>]),
      (''tcp//0xB'', [\<lparr>PublicAddr = ''10.0.0.2''\<rparr>])]"

definition env_two_peers :: "(string, string) env" where
  "env_two_peers =
     \<lparr>rv_Info = Inr state_two_peers,
      dwh_GetDeals = (\<lambda>a. if a = ''0xA'' then Inr [deal_a]
                          else if a = ''0xB'' then Inr [deal_b] else Inr []),
      HexToAddress = (\<lambda>s. s), Hex = (\<lambda>a. a), ParseIP = (\<lambda>s. s),
      db_City = (\<lambda>ip. CityOk city_moscow)\<rparr>"

definition point_a :: PeerPoint where
  "point_a =
     \<lparr>Lat = Finite (5575 / 100), Lon = Finite (3762 / 100), Count = 1, Income = Finite 0,
      CPUCount = 2, GPUCount = 0, RAMSize = 4\<rparr>"

definition point_b :: PeerPoint where
  "point_b =
     \<lparr>Lat = Finite (5575 / 100), Lon = Finite (3762 / 100), Count = 1, Income = Finite 0,
      CPUCount = 1, GPUCount = 1, RAMSize = 8\<rparr>"

text \<open>The same directory answer visited in the other order.\<close>

definition env_two_peers_swapped :: "(string, string) env" where
  "env_two_peers_swapped = env_two_peers\<lparr>rv_Info := Inr (rev state_two_peers)\<rparr>"

text \<open>The ledger query for the first peer fails.\<close>

definition env_ledger_fails :: "(string, string) env" where
  "env_ledger_fails =
     env_two_peers
       \<lparr>dwh_GetDeals := (\<lambda>a. if a = ''0xA'' then Inl ''context deadline exceeded''
                             else Inr [deal_b])\<rparr>"

text \<open>
  One peer listed under two protocols, with servers in two places, and the same
  \<^verbatim>\<open>State\<close> map visited in the other order.
\<close>

definition state_two_protocols :: "(string \<times> server list) list" where
  "state_two_protocols =
     [(''tcp//0xA'', [\<lparr>PublicAddr = ''10.0.0.1''\<rparr>]),
      (''udp//0xA'', [\<lparr>PublicAddr = ''10.0.0.2''\<rparr>])]"

definition env_two_protocols :: "(string, string) env" where
  "env_two_protocols =
     env_two_peers
       \<lparr>rv_Info := Inr state_two_protocols,
        db_City := (\<lambda>ip. if ip = ''10.0.0.1'' then CityOk city_moscow
                          else CityOk city_berlin)\<rparr>"

definition env_two_protocols_swapped :: "(string, string) env" where
  "env_two_protocols_swapped = env_two_protocols\<lparr>rv_Info := Inr (rev state_two_protocols)\<rparr>"

definition point_a_berlin :: PeerPoint where
  "point_a_berlin =
     \<lparr>Lat = Finite (5252 / 100), Lon = Finite (1340 / 100), Count = 1, Income = Finite 0,
      CPUCount = 2, GPUCount = 0, RAMSize = 4\<rparr>"

text \<open>
  A server whose address is not an IP address: the lookup returns an error together with
  an empty record.
\<close>

definition state_not_an_ip :: "(string \<times> server list) list" where
  "state_not_an_ip = [(''tcp//0xA'', [\<lparr>PublicAddr = ''not-an-ip''\<rparr>])]"

definition env_geo_fails :: "(string, string) env" where
  "env_geo_fails =
     env_two_peers
       \<lparr>rv_Info := Inr state_not_an_ip,
        db_City := (\<lambda>ip. CityErr (Some city_zero) ''ipAddress passed to Lookup cannot be nil'')\<rparr>"

definition env_unreachable :: "(string, string) env" where
  "env_unreachable =
     \<lparr>rv_Info = Inl ''context deadline exceeded'',
      dwh_GetDeals = (\<lambda>a. Inr []),
      HexToAddress = (\<lambda>s. s), Hex = (\<lambda>a. a), ParseIP = (\<lambda>s. s),
      db_City = (\<lambda>ip. CityErr None ''no database'')\<rparr>"

definition env_no_peers :: "(string, string) env" where
  "env_no_peers = env_unreachable\<lparr>rv_Info := Inr []\<rparr>"

section \<open>The cache\<close>

lemma get_update: "get (update c ps) = ps"
  by (cases ps) (simp_all add: get_def update_def)

lemma update_slots:
  "(green (update c ps) = ps \<and> blue (update c ps) = None) \<or>
   (blue (update c ps) = ps \<and> green (update c ps) = None)"
  by (simp add: update_def)

lemma get_exec: "get (exec c xs) = last (get c # installed xs)"
proof (induction xs arbitrary: c)
  case Nil
  show ?case by simp
next
  case (Cons x xs)
  show ?case
  proof (cases x)
    case (Update ps)
    with Cons.IH [of "update c ps"] show ?thesis
      by (simp add: get_update)
  next
    case Get
    with Cons.IH [of c] show ?thesis by simp
  qed
qed

lemma get_cache_init: "get (cache_init ps) = ps"
  by (cases ps) (simp_all add: get_def cache_init_def)

lemma one_slot_exec:
  "green c = None \<or> blue c = None \<Longrightarrow>
   green (exec c xs) = None \<or> blue (exec c xs) = None"
proof (induction xs arbitrary: c)
  case Nil
  then show ?case by simp
next
  case (Cons x xs)
  have "green (apply_op c x) = None \<or> blue (apply_op c x) = None"
  proof (cases x)
    case (Update ps)
    with update_slots [of c ps] show ?thesis by auto
  next
    case Get
    with Cons.prems show ?thesis by simp
  qed
  from Cons.IH [OF this] show ?case by simp
qed

text \<open>
  C1. Start from the cache \<^verbatim>\<open>cache{green: s0}\<close> and run any sequence of updates and gets.
  A get placed at position \<open>i\<close> returns the snapshot installed last before it: the
  argument of the latest earlier update, or \<open>s0\<close> when there is none. So it returns one
  whole map that was installed before, not a mixture; and a get right after
  \<open>update c s\<close> returns \<open>s\<close>, whatever the cache \<open>c\<close> held.
\<close>

theorem cache_get_returns_installed:
  "get (update c s) = s \<and>
   (\<forall>i < length ops. ops ! i = Get \<longrightarrow>
      get (exec (cache_init s0) (take i ops)) = last (s0 # installed (take i ops)) \<and>
      get (exec (cache_init s0) (take i ops)) \<in> set (s0 # installed (take i ops)))"
proof -
  have "get (exec (cache_init s0) xs) = last (s0 # installed xs)" for xs
    by (simp only: get_exec get_cache_init)
  moreover have "last (s0 # installed xs) \<in> set (s0 # installed xs)" for xs
    by (rule last_in_set) simp
  ultimately show ?thesis
    by (simp only: get_update) simp
qed

theorem cache_get_returns_installed_witness:
  "get (update cache_zero (Some Map.empty)) = Some Map.empty \<and>
   get (exec (cache_init None) [Get, Update (Some Map.empty)]) = Some Map.empty \<and>
   Some Map.empty \<in> set (None # installed [Get, Update (Some Map.empty)])"
proof -
  let ?ops = "[Get, Update (Some Map.empty), Get]"
  note t = cache_get_returns_installed [of cache_zero "Some Map.empty" ?ops None]
  from t have a: "get (update cache_zero (Some Map.empty)) = Some Map.empty"
    by (rule conjunct1)
  from t have "\<forall>i < length ?ops. ?ops ! i = Get \<longrightarrow>
      get (exec (cache_init None) (take i ?ops)) = last (None # installed (take i ?ops)) \<and>
      get (exec (cache_init None) (take i ?ops)) \<in> set (None # installed (take i ?ops))"
    by (rule conjunct2)
  from this [THEN spec, of 2]
  have "get (exec (cache_init None) [Get, Update (Some Map.empty)]) = Some Map.empty"
    by simp
  with a show ?thesis by simp
qed

text \<open>
  C10. After \<open>update c s\<close> one slot holds \<open>s\<close> and the other is nil, so the snapshot that
  \<open>s\<close> supersedes is dropped at once. Hence in every state reached from
  \<^verbatim>\<open>cache{green: s0}\<close> by updates and gets at most one slot is not nil, and \<open>get\<close> returns
  the slot that is not nil.
\<close>

theorem cache_single_slot:
  "((green (update c s) = s \<and> blue (update c s) = None) \<or>
    (blue (update c s) = s \<and> green (update c s) = None)) \<and>
   (green (exec (cache_init s0) ops) = None \<or> blue (exec (cache_init s0) ops) = None) \<and>
   (green (exec (cache_init s0) ops) \<noteq> None \<longrightarrow>
      get (exec (cache_init s0) ops) = green (exec (cache_init s0) ops)) \<and>
   (blue (exec (cache_init s0) ops) \<noteq> None \<longrightarrow>
      get (exec (cache_init s0) ops) = blue (exec (cache_init s0) ops))"
proof -
  have "green (cache_init s0) = None \<or> blue (cache_init s0) = None"
    by (simp add: cache_init_def)
  then have one: "green (exec (cache_init s0) ops) = None \<or> blue (exec (cache_init s0) ops) = None"
    by (rule one_slot_exec)
  then have "blue (exec (cache_init s0) ops) \<noteq> None \<longrightarrow>
      get (exec (cache_init s0) ops) = blue (exec (cache_init s0) ops)"
    by (auto simp: get_def)
  moreover have "green (exec (cache_init s0) ops) \<noteq> None \<longrightarrow>
      get (exec (cache_init s0) ops) = green (exec (cache_init s0) ops)"
    by (simp add: get_def)
  ultimately show ?thesis
    using one update_slots [of c s] by blast
qed

theorem cache_single_slot_witness:
  "blue (exec (cache_init (Some Map.empty)) [Update (Some Map.empty), Get]) \<noteq> None \<and>
   green (exec (cache_init (Some Map.empty)) [Update (Some Map.empty), Get]) = None \<and>
   get (exec (cache_init (Some Map.empty)) [Update (Some Map.empty), Get]) =
     blue (exec (cache_init (Some Map.empty)) [Update (Some Map.empty), Get])"
proof -
  let ?c = "exec (cache_init (Some Map.empty)) [Update (Some Map.empty), Get]"
  have b: "blue ?c \<noteq> None" and g: "green ?c = None"
    by (simp_all add: cache_init_def update_def)
  from cache_single_slot [of cache_zero None "Some Map.empty" "[Update (Some Map.empty), Get]"]
  have "blue ?c \<noteq> None \<longrightarrow> get ?c = blue ?c"
    by blast
  with b g show ?thesis by blast
qed

section \<open>The refresh loop and the endpoint\<close>

lemma loadPeersData_Info_fails: "rv_Info e = Inl err \<Longrightarrow> loadPeersData e = Inl (Error err)"
  by (simp add: loadPeersData_def)

lemma handler_cache_init:
  "handler (cache_init (Some ps)) =
     (if \<exists>p \<in> ran ps. \<not> marshalable p then EmptyBody else JsonBody (JObject ps))"
  by (simp add: handler_def json_Marshal_def get_cache_init)

lemma handler_no_peers: "handler (cache_init (Some Map.empty)) = JsonBody (JObject Map.empty)"
  by (simp add: handler_cache_init)

lemma handler_cache_zero: "handler cache_zero = JsonBody JNull"
  by (simp add: handler_def json_Marshal_def get_def cache_zero_def)

text \<open>
  C3. When the directory query \<^verbatim>\<open>rv.Info\<close> fails in a cycle started by the ticker,
  \<^verbatim>\<open>loadPeersData\<close> returns the error and no map, the loop of \<^verbatim>\<open>main\<close> leaves the cache
  as it was and goes on running: a request still gets what the handler makes of the
  cache that was there, and the next tick runs a new cycle from the same cache.
\<close>

theorem directory_failure_keeps_snapshot:
  assumes "rv_Info e = Inl err"
  shows "loadPeersData e = Inl (Error err) \<and>
         main_step (Running c) (Tick e) = Running c \<and>
         serve (main_step (Running c) (Tick e)) = Some (handler c) \<and>
         main_loop (Running c) [Tick e, Tick e'] = main_step (Running c) (Tick e')"
proof -
  from assms have l: "loadPeersData e = Inl (Error err)"
    by (rule loadPeersData_Info_fails)
  then have s: "main_step (Running c) (Tick e) = Running c"
    by simp
  then have "serve (main_step (Running c) (Tick e)) = Some (handler c)"
    by (simp add: serve_def)
  moreover from s have "main_loop (Running c) [Tick e, Tick e'] = main_step (Running c) (Tick e')"
    by simp
  ultimately show ?thesis using l s by blast
qed

theorem directory_failure_keeps_snapshot_witness:
  "rv_Info env_unreachable = Inl ''context deadline exceeded'' \<and>
   main_step (Running (cache_init (Some Map.empty))) (Tick env_unreachable) =
     Running (cache_init (Some Map.empty)) \<and>
   serve (main_step (Running (cache_init (Some Map.empty))) (Tick env_unreachable)) =
     Some (JsonBody (JObject Map.empty)) \<and>
   main_loop (Running (cache_init (Some Map.empty))) [Tick env_unreachable, Tick env_no_peers] =
     Running \<lparr>green = None, blue = Some Map.empty\<rparr>"
proof -
  have h: "rv_Info env_unreachable = Inl ''context deadline exceeded''"
    by (simp add: env_unreachable_def)
  have n: "loadPeersData env_no_peers = Inr Map.empty"
    by (simp add: loadPeersData_def env_no_peers_def)
  let ?c = "cache_init (Some Map.empty)"
  note t = directory_failure_keeps_snapshot [OF h, of ?c env_no_peers]
  from t have a: "main_step (Running ?c) (Tick env_unreachable) = Running ?c"
    by blast
  from t have "serve (main_step (Running ?c) (Tick env_unreachable)) = Some (handler ?c)"
    by blast
  then have b: "serve (main_step (Running ?c) (Tick env_unreachable)) =
      Some (JsonBody (JObject Map.empty))"
    by (simp only: handler_no_peers)
  from t have "main_loop (Running ?c) [Tick env_unreachable, Tick env_no_peers] =
      main_step (Running ?c) (Tick env_no_peers)"
    by blast
  moreover have "main_step (Running ?c) (Tick env_no_peers) =
      Running \<lparr>green = None, blue = Some Map.empty\<rparr>"
    using n by (simp add: update_def cache_init_def)
  ultimately have d: "main_loop (Running ?c) [Tick env_unreachable, Tick env_no_peers] =
      Running \<lparr>green = None, blue = Some Map.empty\<rparr>"
    by (simp only:)
  from h a b d show ?thesis by (intro conjI)
qed

text \<open>
  C7, as the code has it. \<open>get\<close> has no error result: on a cache whose two slots are nil
  it returns the nil map, and the handler writes that as JSON \<^verbatim>\<open>null\<close>. The program
  never serves such a cache: \<^verbatim>\<open>main\<close> builds the cache around the map of the first load
  and returns, before the endpoint is started, when that load fails. So before any update
  a request gets the first snapshot as a JSON object (and an empty body if that snapshot
  holds a number that JSON cannot express).
\<close>

theorem endpoint_before_first_update:
  "get cache_zero = None \<and> handler cache_zero = JsonBody JNull \<and>
   (\<forall>c. main_start e = Running c \<longrightarrow>
      (\<exists>ps. loadPeersData e = Inr ps \<and> c = cache_init (Some ps) \<and> get c = Some ps \<and>
            handler c =
              (if \<exists>p \<in> ran ps. \<not> marshalable p then EmptyBody else JsonBody (JObject ps)))) \<and>
   (\<forall>err. loadPeersData e = Inl (Error err) \<longrightarrow> main_start e = Exited 0)"
proof -
  have "get cache_zero = None"
    by (simp add: get_def cache_zero_def)
  moreover note handler_cache_zero
  moreover have "\<exists>ps. loadPeersData e = Inr ps \<and> c = cache_init (Some ps) \<and> get c = Some ps \<and>
      handler c = (if \<exists>p \<in> ran ps. \<not> marshalable p then EmptyBody else JsonBody (JObject ps))"
    if "main_start e = Running c" for c
  proof (cases "loadPeersData e")
    case (Inl f)
    with that show ?thesis
      by (cases f) (simp_all add: main_start_def)
  next
    case (Inr ps)
    with that have "c = cache_init (Some ps)"
      by (simp add: main_start_def)
    with Inr show ?thesis
      by (simp add: get_cache_init handler_cache_init)
  qed
  moreover have "main_start e = Exited 0" if "loadPeersData e = Inl (Error err)" for err
    using that by (simp add: main_start_def)
  ultimately show ?thesis by blast
qed

theorem endpoint_before_first_update_witness:
  "main_start env_no_peers = Running (cache_init (Some Map.empty)) \<and>
   handler (cache_init (Some Map.empty)) = JsonBody (JObject Map.empty) \<and>
   loadPeersData env_unreachable = Inl (Error ''context deadline exceeded'') \<and>
   main_start env_unreachable = Exited 0"
proof -
  have n: "loadPeersData env_no_peers = Inr Map.empty"
    by (simp add: loadPeersData_def env_no_peers_def)
  then have r: "main_start env_no_peers = Running (cache_init (Some Map.empty))"
    by (simp add: main_start_def)
  have u: "loadPeersData env_unreachable = Inl (Error ''context deadline exceeded'')"
    by (simp add: loadPeersData_def env_unreachable_def)
  note t = endpoint_before_first_update [of env_no_peers]
  note t' = endpoint_before_first_update [of env_unreachable]
  from t have "\<forall>c. main_start env_no_peers = Running c \<longrightarrow>
      (\<exists>ps. loadPeersData env_no_peers = Inr ps \<and> c = cache_init (Some ps) \<and>
            get c = Some ps \<and>
            handler c =
              (if \<exists>p \<in> ran ps. \<not> marshalable p then EmptyBody else JsonBody (JObject ps)))"
    by blast
  with r obtain ps where "loadPeersData env_no_peers = Inr ps"
      and "handler (cache_init (Some Map.empty)) =
        (if \<exists>p \<in> ran ps. \<not> marshalable p then EmptyBody else JsonBody (JObject ps))"
    by blast
  with n have a: "handler (cache_init (Some Map.empty)) = JsonBody (JObject Map.empty)"
    by simp
  from t' u have b: "main_start env_unreachable = Exited 0"
    by blast
  from r a u b show ?thesis by (intro conjI)
qed

text \<open>
  C7 as the spec words it fails on the cache with no snapshot: the handler's body is
  \<^verbatim>\<open>null\<close>, which is not the empty mapping.
\<close>

theorem endpoint_empty_mapping_counterexample:
  "get cache_zero = None \<and> handler cache_zero = JsonBody JNull \<and>
   handler cache_zero \<noteq> JsonBody (JObject Map.empty)"
  by (simp add: get_def cache_zero_def handler_def json_Marshal_def)

section \<open>The totals of one peer\<close>

lemma deals_loop_income: "snd (deals_loop ds (p, i)) = i + sum_list (map deal_Price ds)"
  by (induction ds arbitrary: p i) simp_all

lemma deals_loop_Count: "Count (fst (deals_loop ds (p, i))) = Count p + int (length ds)"
  by (induction ds arbitrary: p i) simp_all

lemma deals_loop_CPUCount:
  "CPUCount (fst (deals_loop ds (p, i))) = CPUCount p + sum_list (map deal_CPUCores ds)"
  by (induction ds arbitrary: p i) (simp_all add: add.assoc)

lemma deals_loop_GPUCount:
  "GPUCount (fst (deals_loop ds (p, i))) = GPUCount p + sum_list (map deal_GPUCount ds)"
  by (induction ds arbitrary: p i) (simp_all add: add.assoc)

lemma deals_loop_RAMSize:
  "RAMSize (fst (deals_loop ds (p, i))) =
     (if ds = [] then RAMSize p else deal_RAMSize (last ds))"
  by (induction ds arbitrary: p i) simp_all

lemma loadDeals_Inr:
  assumes "dwh addr = Inr deals"
  shows "loadDeals dwh addr =
     Inr ((fst (deals_loop deals (PeerPoint_zero, 0)))
       \<lparr>Income := Float_Float64 (Float_Quo
          (Float_SetInt (snd (deals_loop deals (PeerPoint_zero, 0)) * 3600)) Ether)\<rparr>)"
  using assms by (simp add: loadDeals_def split_beta)

lemma loadDeals_Inl: "dwh addr = Inl err \<Longrightarrow> loadDeals dwh addr = Inl err"
  by (simp add: loadDeals_def)

lemma round_half_even_nonneg: "0 \<le> x \<Longrightarrow> 0 \<le> round_half_even x"
  by (auto simp: round_half_even_def Let_def)

lemma pow2_pos: "0 < pow2 e"
  by (simp add: pow2_def)

lemma round_prec_nonneg: "0 \<le> x \<Longrightarrow> 0 \<le> round_prec n x"
  by (auto simp: round_prec_def Let_def sgn_if
      intro!: mult_nonneg_nonneg round_half_even_nonneg divide_nonneg_pos pow2_pos
        less_imp_le [OF pow2_pos])

lemma Float_Float64_nonneg: "0 \<le> x \<Longrightarrow> f64_nonneg (Float_Float64 x)"
  by (auto simp: Float_Float64_def f64_nonneg_def Let_def round_prec_nonneg
      intro!: round_half_even_nonneg divide_nonneg_pos)

lemma income_one_ether_per_second:
  "Float_Float64 (Float_Quo (Float_SetInt (10 ^ 18 * 3600)) Ether) = Finite 3600"
  by code_simp

text \<open>
  C8. When the ledger answers with deals of non-negative price, \<^verbatim>\<open>loadDeals\<close> succeeds;
  the loop adds the prices up as unbounded integers, so \<^verbatim>\<open>income\<close> is their exact sum;
  the product with 3600 is exact too; only then is the integer turned into a
  \<^verbatim>\<open>big.Float\<close>, divided by \<^verbatim>\<open>params.Ether\<close> and converted to \<^verbatim>\<open>float64\<close>. The resulting
  \<^verbatim>\<open>Income\<close> is not negative.
\<close>

theorem income_exact_nonneg:
  assumes "dwh addr = Inr deals" and "\<forall>d \<in> set deals. 0 \<le> deal_Price d"
  shows "\<exists>p. loadDeals dwh addr = Inr p \<and>
           snd (deals_loop deals (PeerPoint_zero, 0)) = sum_list (map deal_Price deals) \<and>
           Income p = Float_Float64 (Float_Quo
             (Float_SetInt (sum_list (map deal_Price deals) * 3600)) Ether) \<and>
           f64_nonneg (Income p)"
proof -
  let ?income = "sum_list (map deal_Price deals)"
  have inc: "snd (deals_loop deals (PeerPoint_zero, 0)) = ?income"
    by (simp add: deals_loop_income)
  from assms(2) have "0 \<le> ?income"
    by (intro sum_list_nonneg) auto
  then have "0 \<le> Float_SetInt (?income * 3600)"
    unfolding Float_SetInt_def by (intro round_prec_nonneg) simp
  then have "0 \<le> Float_Quo (Float_SetInt (?income * 3600)) Ether"
    unfolding Float_Quo_def by (intro round_prec_nonneg) (simp add: Ether_def)
  then have "f64_nonneg (Float_Float64 (Float_Quo (Float_SetInt (?income * 3600)) Ether))"
    by (rule Float_Float64_nonneg)
  with loadDeals_Inr [of dwh addr deals] assms(1) inc show ?thesis
    by simp
qed

theorem income_exact_nonneg_witness:
  "map deal_Price deals_example = [5 * 10 ^ 17, 5 * 10 ^ 17] \<and>
   (\<exists>p. loadDeals (\<lambda>a. Inr deals_example) ''0x01'' = Inr p \<and>
        Income p = Finite 3600 \<and> f64_nonneg (Income p))"
proof -
  have prices: "map deal_Price deals_example = [5 * 10 ^ 17, 5 * 10 ^ 17]"
    by (simp add: deals_example_def)
  then have nonneg: "\<forall>d \<in> set deals_example. 0 \<le> deal_Price d"
    by (simp add: deals_example_def)
  from prices have total: "sum_list (map deal_Price deals_example) = 10 ^ 18"
    by simp
  from income_exact_nonneg [of "\<lambda>a. Inr deals_example" "''0x01''" deals_example] nonneg
  obtain p where l: "loadDeals (\<lambda>a. Inr deals_example) ''0x01'' = Inr p"
    and i: "Income p = Float_Float64 (Float_Quo
           (Float_SetInt (sum_list (map deal_Price deals_example) * 3600)) Ether)"
    and n: "f64_nonneg (Income p)"
    by blast
  from i have "Income p = Finite 3600"
    by (simp only: total income_one_ether_per_second)
  with l n have "\<exists>p. loadDeals (\<lambda>a. Inr deals_example) ''0x01'' = Inr p \<and>
      Income p = Finite 3600 \<and> f64_nonneg (Income p)"
    by blast
  with prices show ?thesis by (intro conjI)
qed

text \<open>
  C4, at the input on which the code departs from it: a ledger answer of two deals with 4
  and 8 units of memory. The processor and graphics counts are added up; the memory
  size is the one of the last deal, not the sum 12.
\<close>

theorem ram_size_is_last_deal:
  "loadDeals (\<lambda>a. Inr deals_example) addr =
     Inr \<lparr>Lat = Finite 0, Lon = Finite 0, Count = 2, Income = Finite 3600,
          CPUCount = 3, GPUCount = 1, RAMSize = 8\<rparr> \<and>
   sum_list (map deal_RAMSize deals_example) = 12"
proof -
  have "Float_Float64 (Float_Quo (Float_SetInt (1000000000000000000 * 3600)) Ether) = Finite 3600"
    using income_one_ether_per_second by simp
  then show ?thesis
    by (simp add: loadDeals_def deals_example_def PeerPoint_zero_def)
qed

section \<open>The snapshot of one cycle\<close>

lemma server_step_wf:
  "wf_addr addr \<Longrightarrow>
   server_step e addr srv ps =
     Inr (case resolved e addr srv of None \<Rightarrow> ps | Some v \<Rightarrow> ps(peer_key e addr \<mapsto> v))"
  by (simp add: server_step_def wf_addr_def resolved_def peer_key_def peer_addr_def Let_def
      split: sum.splits city_result.splits)

lemma server_step_not_wf: "\<not> wf_addr addr \<Longrightarrow> server_step e addr srv ps = Inl Panic"
  by (simp add: server_step_def wf_addr_def Let_def)

lemma servers_loop_wf:
  "wf_addr addr \<Longrightarrow>
   servers_loop e addr srvs ps =
     Inr (case entry_record e addr srvs of None \<Rightarrow> ps | Some v \<Rightarrow> ps(peer_key e addr \<mapsto> v))"
proof (induction srvs arbitrary: ps)
  case Nil
  show ?case by simp
next
  case (Cons srv srvs)
  from Cons.prems show ?case
    by (simp add: server_step_wf Cons.IH split: option.splits)
qed

lemma servers_loop_not_wf:
  "\<not> wf_addr addr \<Longrightarrow> servers_loop e addr srvs ps = (if srvs = [] then Inr ps else Inl Panic)"
  by (cases srvs) (simp_all add: server_step_not_wf)

lemma entry_record_Some:
  "entry_record e addr srvs = Some v \<Longrightarrow> \<exists>srv \<in> set srvs. resolved e addr srv = Some v"
  by (induction srvs) (auto split: option.splits)

lemma entry_record_None:
  "entry_record e addr srvs = None \<longleftrightarrow> (\<forall>srv \<in> set srvs. resolved e addr srv = None)"
  by (induction srvs) (auto split: option.splits)

lemma entry_step_Inl: "entry_step e x (Inl f) = Inl f"
  by (simp add: entry_step_def)

lemma entry_step_Inr: "entry_step e (addr, srvs) (Inr ps) = servers_loop e addr srvs ps"
  by (simp add: entry_step_def)

lemma fold_entry_step_Inl: "fold (entry_step e) xs (Inl f) = Inl f"
  by (induction xs) (simp_all add: entry_step_Inl)

lemma state_loop_fold: "state_loop e info ps = fold (entry_step e) info (Inr ps)"
proof (induction info arbitrary: ps)
  case Nil
  show ?case by simp
next
  case (Cons x info)
  obtain addr srvs where x: "x = (addr, srvs)" by (cases x)
  show ?case
    by (cases "servers_loop e addr srvs ps")
      (simp_all add: x entry_step_Inr fold_entry_step_Inl Cons.IH)
qed

lemma entry_step_wf:
  "wf_addr (fst x) \<Longrightarrow>
   entry_step e x (Inr ps) =
     Inr (case entry_record e (fst x) (snd x) of
            None \<Rightarrow> ps | Some v \<Rightarrow> ps(peer_key e (fst x) \<mapsto> v))"
  by (cases x) (simp add: entry_step_Inr servers_loop_wf split: option.splits)

lemma entry_step_commute:
  assumes "wf_addr (fst x)" and "wf_addr (fst y)"
    and "peer_key e (fst x) \<noteq> peer_key e (fst y)"
  shows "entry_step e x \<circ> entry_step e y = entry_step e y \<circ> entry_step e x"
proof
  fix r
  show "(entry_step e x \<circ> entry_step e y) r = (entry_step e y \<circ> entry_step e x) r"
  proof (cases r)
    case (Inl f)
    then show ?thesis by (simp add: entry_step_Inl)
  next
    case (Inr ps)
    with assms show ?thesis
      by (auto simp: entry_step_wf fun_upd_twist split: option.splits)
  qed
qed

lemma state_loop_permuted:
  assumes perm: "mset info' = mset info"
    and wf: "\<forall>x \<in> set info. wf_addr (fst x)"
    and dist: "distinct (map (peer_key e \<circ> fst) info)"
  shows "state_loop e info' ps = state_loop e info ps"
proof -
  have "fold (entry_step e) info = fold (entry_step e) info'"
  proof (rule fold_multiset_equiv)
    fix x y
    assume x: "x \<in> set info" and y: "y \<in> set info"
    show "entry_step e x \<circ> entry_step e y = entry_step e y \<circ> entry_step e x"
    proof (cases "x = y")
      case True
      then show ?thesis by simp
    next
      case False
      from dist have "inj_on (peer_key e \<circ> fst) (set info)"
        by (simp add: distinct_map)
      then have inj: "inj_on (\<lambda>x. peer_key e (fst x)) (set info)"
        by (simp add: comp_def)
      have "peer_key e (fst x) \<noteq> peer_key e (fst y)"
      proof
        assume "peer_key e (fst x) = peer_key e (fst y)"
        from inj_onD [OF inj this x y] False show False by simp
      qed
      with wf x y show ?thesis
        by (intro entry_step_commute) auto
    qed
  next
    from perm show "mset info = mset info'" by simp
  qed
  then show ?thesis by (simp add: state_loop_fold)
qed

lemma state_loop_wf:
  assumes "\<forall>x \<in> set info. wf_addr (fst x)"
  shows "\<exists>ps. state_loop e info ps0 = Inr ps"
  using assms
proof (induction info arbitrary: ps0)
  case Nil
  show ?case by simp
next
  case (Cons x info)
  obtain addr srvs where x: "x = (addr, srvs)" by (cases x)
  with Cons.prems have "wf_addr addr" by simp
  with Cons show ?case
    by (simp add: x servers_loop_wf)
qed

text \<open>
  What a cycle that returns a map leaves in it: under each key the record of the last
  entry (in visiting order) that has this key and a resolved server.
\<close>

lemma state_loop_Inr:
  assumes "state_loop e info ps0 = Inr ps"
  shows "(\<forall>x \<in> set info. snd x \<noteq> [] \<longrightarrow> wf_addr (fst x)) \<and>
     (\<forall>k. ps k =
        (case [x \<leftarrow> rev info. peer_key e (fst x) = k \<and> entry_record e (fst x) (snd x) \<noteq> None] of
           [] \<Rightarrow> ps0 k
         | x # _ \<Rightarrow> entry_record e (fst x) (snd x)))"
  using assms
proof (induction info arbitrary: ps0)
  case Nil
  then show ?case by simp
next
  case (Cons x info)
  obtain addr srvs where x: "x = (addr, srvs)" by (cases x)
  show ?case
  proof (cases "wf_addr addr")
    case True
    let ?ps1 = "case entry_record e addr srvs of None \<Rightarrow> ps0 | Some v \<Rightarrow> ps0(peer_key e addr \<mapsto> v)"
    from Cons.prems True have "state_loop e info ?ps1 = Inr ps"
      by (simp add: x servers_loop_wf)
    from Cons.IH [OF this] True show ?thesis
      by (auto simp: x split: option.splits list.splits)
  next
    case False
    with Cons.prems have srvs: "srvs = []" and "state_loop e info ps0 = Inr ps"
      by (auto simp: x servers_loop_not_wf split: if_splits)
    from Cons.IH [OF this(2)] srvs show ?thesis
      by (auto simp: x split: option.splits list.splits)
  qed
qed


lemma loadPeersData_entries:
  assumes info: "rv_Info e = Inr info" and ok: "loadPeersData e = Inr ps"
  shows "(\<forall>k v. ps k = Some v \<longrightarrow>
            (\<exists>x \<in> set info. \<exists>srv \<in> set (snd x).
               k = peer_key e (fst x) \<and> resolved e (fst x) srv = Some v))"
    and "dom ps = {peer_key e (fst x) | x srv.
            x \<in> set info \<and> srv \<in> set (snd x) \<and> resolved e (fst x) srv \<noteq> None}"
    and "\<forall>x \<in> set info. snd x \<noteq> [] \<longrightarrow> wf_addr (fst x)"
proof -
  from info ok have sl: "state_loop e info Map.empty = Inr ps"
    by (simp add: loadPeersData_def)
  note c = state_loop_Inr [OF sl]
  from c show "\<forall>x \<in> set info. snd x \<noteq> [] \<longrightarrow> wf_addr (fst x)" by blast
  from c have val: "ps k =
        (case [x \<leftarrow> rev info. peer_key e (fst x) = k \<and> entry_record e (fst x) (snd x) \<noteq> None] of
           [] \<Rightarrow> None
         | x # _ \<Rightarrow> entry_record e (fst x) (snd x))" for k
    by simp
  show "\<forall>k v. ps k = Some v \<longrightarrow>
            (\<exists>x \<in> set info. \<exists>srv \<in> set (snd x).
               k = peer_key e (fst x) \<and> resolved e (fst x) srv = Some v)"
  proof (intro allI impI)
    fix k v
    assume "ps k = Some v"
    with val [of k] obtain x xs where
      f: "[x \<leftarrow> rev info. peer_key e (fst x) = k \<and> entry_record e (fst x) (snd x) \<noteq> None] = x # xs"
      and r: "entry_record e (fst x) (snd x) = Some v"
      by (auto split: list.splits)
    from f have "x \<in> set [x \<leftarrow> rev info. peer_key e (fst x) = k \<and> entry_record e (fst x) (snd x) \<noteq> None]"
      by simp
    then have "x \<in> set info" "peer_key e (fst x) = k" by auto
    with entry_record_Some [OF r] show "\<exists>x \<in> set info. \<exists>srv \<in> set (snd x).
               k = peer_key e (fst x) \<and> resolved e (fst x) srv = Some v"
      by blast
  qed
  show "dom ps = {peer_key e (fst x) | x srv.
            x \<in> set info \<and> srv \<in> set (snd x) \<and> resolved e (fst x) srv \<noteq> None}"
    (is "_ = ?R")
  proof (intro set_eqI iffI)
    fix k assume "k \<in> dom ps"
    then obtain v where "ps k = Some v" by blast
    with \<open>\<forall>k v. ps k = Some v \<longrightarrow> _\<close> show "k \<in> ?R" by fastforce
  next
    fix k assume "k \<in> ?R"
    then obtain x srv where x: "x \<in> set info" "srv \<in> set (snd x)"
      "resolved e (fst x) srv \<noteq> None" "k = peer_key e (fst x)"
      by blast
    then have rec: "entry_record e (fst x) (snd x) \<noteq> None"
      by (auto simp: entry_record_None)
    define F where
      "F = [x \<leftarrow> rev info. peer_key e (fst x) = k \<and> entry_record e (fst x) (snd x) \<noteq> None]"
    from x rec have "x \<in> set F"
      by (simp add: F_def)
    then obtain y ys where f: "F = y # ys"
      by (cases F) auto
    then have "y \<in> set F" by simp
    then have "entry_record e (fst y) (snd y) \<noteq> None"
      by (simp add: F_def)
    moreover from val [of k] have "ps k = (case F of [] \<Rightarrow> None | x # _ \<Rightarrow> entry_record e (fst x) (snd x))"
      unfolding F_def .
    with f have "ps k = entry_record e (fst y) (snd y)"
      by simp
    ultimately show "k \<in> dom ps"
      by auto
  qed
qed


lemma resolved_Some:
  assumes "resolved e addr srv = Some v"
  shows "\<exists>deals point r. dwh_GetDeals e (peer_addr e addr) = Inr deals \<and>
           loadDeals (dwh_GetDeals e) (peer_addr e addr) = Inr point \<and>
           db_City e (ParseIP e (PublicAddr srv)) = CityOk r \<and>
           v = point\<lparr>Lat := Latitude r, Lon := Longitude r\<rparr>"
proof (cases "dwh_GetDeals e (peer_addr e addr)")
  case (Inl err)
  with assms show ?thesis
    by (simp add: resolved_def loadDeals_Inl)
next
  case (Inr deals)
  with assms show ?thesis
    by (auto simp: resolved_def loadDeals_Inr split: city_result.splits)
qed

lemma resolved_ok:
  assumes "dwh_GetDeals e (peer_addr e addr) = Inr deals"
    and "db_City e (ParseIP e (PublicAddr srv)) = CityOk r"
  shows "resolved e addr srv \<noteq> None"
  using assms by (simp add: resolved_def loadDeals_Inr [of _ _ deals])

lemma server_step_rv_Info: "server_step (e\<lparr>rv_Info := i\<rparr>) = server_step e"
  by (simp add: fun_eq_iff server_step_def Let_def split: sum.splits city_result.splits)

lemma servers_loop_rv_Info: "servers_loop (e\<lparr>rv_Info := i\<rparr>) addr srvs ps = servers_loop e addr srvs ps"
  by (induction srvs arbitrary: ps) (simp_all add: server_step_rv_Info split: sum.splits)

lemma state_loop_rv_Info: "state_loop (e\<lparr>rv_Info := i\<rparr>) info ps = state_loop e info ps"
  by (induction info arbitrary: ps) (auto simp: servers_loop_rv_Info split: sum.splits)

subsection \<open>Concrete cycles, evaluated\<close>

lemma income_zero: "Float_Float64 (Float_Quo (Float_SetInt 0) Ether) = Finite 0"
  by (simp add: Float_Float64_def Float_Quo_def Float_SetInt_def round_prec_def)

lemma loadDeals_single:
  "dwh a = Inr [d] \<Longrightarrow> deal_Price d = 0 \<Longrightarrow>
   loadDeals dwh a = Inr \<lparr>Lat = Finite 0, Lon = Finite 0, Count = 1, Income = Finite 0,
      CPUCount = deal_CPUCores d, GPUCount = deal_GPUCount d, RAMSize = deal_RAMSize d\<rparr>"
  by (simp add: loadDeals_def PeerPoint_zero_def income_zero)

lemma Split_slashes_examples:
  "Split_slashes ''tcp//0xA'' = [''tcp'', ''0xA'']"
  "Split_slashes ''tcp//0xB'' = [''tcp'', ''0xB'']"
  "Split_slashes ''udp//0xA'' = [''udp'', ''0xA'']"
  by simp_all

lemmas cycle_eval =
  loadPeersData_def server_step_def Split_slashes_examples loadDeals_single loadDeals_Inl
  deal_a_def deal_b_def city_moscow_def city_berlin_def
  state_two_peers_def state_two_protocols_def state_not_an_ip_def
  point_a_def point_b_def point_a_berlin_def

lemma loadPeersData_two_peers:
  "loadPeersData env_two_peers = Inr [''0xA'' \<mapsto> point_a, ''0xB'' \<mapsto> point_b]"
  by (simp add: cycle_eval env_two_peers_def)

lemma loadPeersData_two_peers_swapped:
  "loadPeersData env_two_peers_swapped = Inr [''0xB'' \<mapsto> point_b, ''0xA'' \<mapsto> point_a]"
  by (simp add: cycle_eval env_two_peers_def env_two_peers_swapped_def)

lemma loadPeersData_ledger_fails:
  "loadPeersData env_ledger_fails = Inr [''0xB'' \<mapsto> point_b]"
  by (simp add: cycle_eval env_two_peers_def env_ledger_fails_def)

lemma loadPeersData_two_protocols:
  "loadPeersData env_two_protocols = Inr [''0xA'' \<mapsto> point_a_berlin]"
  by (simp add: cycle_eval env_two_peers_def env_two_protocols_def)

lemma loadPeersData_two_protocols_swapped:
  "loadPeersData env_two_protocols_swapped = Inr [''0xA'' \<mapsto> point_a]"
  by (simp add: cycle_eval env_two_peers_def env_two_protocols_def env_two_protocols_swapped_def)

lemma loadPeersData_geo_fails: "loadPeersData env_geo_fails = Inr Map.empty"
  by (simp add: cycle_eval env_two_peers_def env_geo_fails_def)

lemma wf_addr_examples: "wf_addr ''tcp//0xA''" "wf_addr ''tcp//0xB''" "wf_addr ''udp//0xA''"
  by (simp_all add: wf_addr_def)

lemma peer_key_examples:
  "peer_key env_two_peers ''tcp//0xA'' = ''0xA''"
  "peer_key env_two_peers ''tcp//0xB'' = ''0xB''"
  "peer_key env_ledger_fails ''tcp//0xA'' = ''0xA''"
  "peer_key env_ledger_fails ''tcp//0xB'' = ''0xB''"
  "peer_addr env_ledger_fails ''tcp//0xA'' = ''0xA''"
  "peer_addr env_ledger_fails ''tcp//0xB'' = ''0xB''"
  by (simp_all add: peer_key_def peer_addr_def env_two_peers_def env_ledger_fails_def)

section \<open>What the snapshot holds\<close>

text \<open>
  C2, as the code has it. \<^verbatim>\<open>loadPeersData\<close> has no geographic buckets: it writes under
  the key \<^verbatim>\<open>peerEth.Hex()\<close>. The keys of the snapshot are the keys of the peers for which
  some server passed both lookups, and every entry is the record of one such pass: the
  peer's own totals from \<^verbatim>\<open>loadDeals\<close> with the coordinates of that server. Records of
  different peers are never combined.
\<close>

theorem snapshot_one_entry_per_peer:
  assumes "rv_Info e = Inr info" and "loadPeersData e = Inr ps"
  shows "dom ps = {peer_key e (fst x) | x srv.
            x \<in> set info \<and> srv \<in> set (snd x) \<and> resolved e (fst x) srv \<noteq> None} \<and>
         (\<forall>k v. ps k = Some v \<longrightarrow>
            (\<exists>x \<in> set info. \<exists>srv \<in> set (snd x). \<exists>point r.
               k = peer_key e (fst x) \<and>
               loadDeals (dwh_GetDeals e) (peer_addr e (fst x)) = Inr point \<and>
               db_City e (ParseIP e (PublicAddr srv)) = CityOk r \<and>
               v = point\<lparr>Lat := Latitude r, Lon := Longitude r\<rparr>))"
proof -
  note l = loadPeersData_entries [OF assms]
  have "\<exists>x \<in> set info. \<exists>srv \<in> set (snd x). \<exists>point r.
               k = peer_key e (fst x) \<and>
               loadDeals (dwh_GetDeals e) (peer_addr e (fst x)) = Inr point \<and>
               db_City e (ParseIP e (PublicAddr srv)) = CityOk r \<and>
               v = point\<lparr>Lat := Latitude r, Lon := Longitude r\<rparr>" if "ps k = Some v" for k v
  proof -
    from l(1) [rule_format, OF that] obtain x srv where x: "x \<in> set info" "srv \<in> set (snd x)"
      "k = peer_key e (fst x)" "resolved e (fst x) srv = Some v"
      by auto
    from resolved_Some [OF x(4)] x(1,2,3) show ?thesis
      by blast
  qed
  with l(2) show ?thesis by blast
qed


theorem snapshot_one_entry_per_peer_witness:
  "rv_Info env_two_peers = Inr state_two_peers \<and>
   loadPeersData env_two_peers = Inr [''0xA'' \<mapsto> point_a, ''0xB'' \<mapsto> point_b] \<and>
   (\<exists>x \<in> set state_two_peers. \<exists>srv \<in> set (snd x). \<exists>point r.
      ''0xA'' = peer_key env_two_peers (fst x) \<and>
      loadDeals (dwh_GetDeals env_two_peers) (peer_addr env_two_peers (fst x)) = Inr point \<and>
      db_City env_two_peers (ParseIP env_two_peers (PublicAddr srv)) = CityOk r \<and>
      point_a = point\<lparr>Lat := Latitude r, Lon := Longitude r\<rparr>)"
proof -
  let ?ps = "[''0xA'' \<mapsto> point_a, ''0xB'' \<mapsto> point_b]"
  have i: "rv_Info env_two_peers = Inr state_two_peers"
    by (simp add: env_two_peers_def)
  note t = snapshot_one_entry_per_peer [OF i loadPeersData_two_peers]
  have "?ps ''0xA'' = Some point_a" by simp
  with t have "\<exists>x \<in> set state_two_peers. \<exists>srv \<in> set (snd x). \<exists>point r.
      ''0xA'' = peer_key env_two_peers (fst x) \<and>
      loadDeals (dwh_GetDeals env_two_peers) (peer_addr env_two_peers (fst x)) = Inr point \<and>
      db_City env_two_peers (ParseIP env_two_peers (PublicAddr srv)) = CityOk r \<and>
      point_a = point\<lparr>Lat := Latitude r, Lon := Longitude r\<rparr>"
    by blast
  with i loadPeersData_two_peers show ?thesis by (intro conjI)
qed

text \<open>
  C2 as the spec words it fails on two peers located in the same place: the
  snapshot keeps one entry for each, with a count of 1 each, and no entry with the sums.
\<close>

theorem snapshot_bucket_merge_counterexample:
  "db_City env_two_peers (ParseIP env_two_peers ''10.0.0.1'') =
     db_City env_two_peers (ParseIP env_two_peers ''10.0.0.2'') \<and>
   loadPeersData env_two_peers = Inr [''0xA'' \<mapsto> point_a, ''0xB'' \<mapsto> point_b] \<and>
   Count point_a = 1 \<and> Count point_b = 1 \<and> ''0xA'' \<noteq> ''0xB''"
  using loadPeersData_two_peers
  by (simp add: env_two_peers_def point_a_def point_b_def)

text \<open>
  C5. Take a cycle whose directory query succeeds, with every key of the \<^verbatim>\<open>State\<close> map
  of the form \<^verbatim>\<open>protocol//address\<close> and with \<^verbatim>\<open>Hex\<close> one-to-one on addresses. The cycle
  returns a snapshot, whatever the ledger answers. A peer whose ledger query fails has
  no entry in it. A peer whose ledger query succeeds and one of whose servers is located
  has an entry, which carries that peer's totals.
\<close>

theorem ledger_failure_skips_peer:
  assumes info: "rv_Info e = Inr info"
    and wf: "\<forall>x \<in> set info. wf_addr (fst x)"
    and inj: "inj (Hex e)"
  shows "\<exists>ps. loadPeersData e = Inr ps \<and>
     (\<forall>x \<in> set info. \<forall>err.
        dwh_GetDeals e (peer_addr e (fst x)) = Inl err \<longrightarrow> ps (peer_key e (fst x)) = None) \<and>
     (\<forall>x \<in> set info. \<forall>srv \<in> set (snd x). \<forall>deals r.
        dwh_GetDeals e (peer_addr e (fst x)) = Inr deals \<and>
        db_City e (ParseIP e (PublicAddr srv)) = CityOk r \<longrightarrow>
        (\<exists>point (r'::city). loadDeals (dwh_GetDeals e) (peer_addr e (fst x)) = Inr point \<and>
           ps (peer_key e (fst x)) = Some (point\<lparr>Lat := Latitude r', Lon := Longitude r'\<rparr>)))"
proof -
  from state_loop_wf [OF wf, of e Map.empty] info obtain ps where ps: "loadPeersData e = Inr ps"
    by (auto simp: loadPeersData_def)
  note l = loadPeersData_entries [OF info ps]
  have same: "peer_addr e a = peer_addr e b" if "peer_key e a = peer_key e b" for a b
    using that inj by (simp add: peer_key_def inj_eq)
  have from_peer: "\<exists>point (r'::city). loadDeals (dwh_GetDeals e) (peer_addr e (fst x)) = Inr point \<and>
      v = point\<lparr>Lat := Latitude r', Lon := Longitude r'\<rparr>"
    if "ps (peer_key e (fst x)) = Some v" for x v
  proof -
    from l(1) [rule_format, OF that] obtain y srv where y: "peer_key e (fst x) = peer_key e (fst y)"
      "resolved e (fst y) srv = Some v"
      by auto
    from resolved_Some [OF y(2)] obtain point and r :: city where
      p: "loadDeals (dwh_GetDeals e) (peer_addr e (fst y)) = Inr point"
        "v = point\<lparr>Lat := Latitude r, Lon := Longitude r\<rparr>"
      by blast
    from p(1) same [OF y(1)] have "loadDeals (dwh_GetDeals e) (peer_addr e (fst x)) = Inr point"
      by simp
    with p(2) show ?thesis by (intro exI conjI)
  qed
  have skipped: "ps (peer_key e (fst x)) = None"
    if "dwh_GetDeals e (peer_addr e (fst x)) = Inl err" for x err
  proof (cases "ps (peer_key e (fst x))")
    case None
    then show ?thesis .
  next
    case (Some v)
    from from_peer [OF this] that show ?thesis
      by (simp add: loadDeals_Inl)
  qed
  have kept: "\<exists>point (r'::city). loadDeals (dwh_GetDeals e) (peer_addr e (fst x)) = Inr point \<and>
      ps (peer_key e (fst x)) = Some (point\<lparr>Lat := Latitude r', Lon := Longitude r'\<rparr>)"
    if "x \<in> set info" "srv \<in> set (snd x)"
      "dwh_GetDeals e (peer_addr e (fst x)) = Inr deals"
      "db_City e (ParseIP e (PublicAddr srv)) = CityOk r" for x srv deals r
  proof -
    from resolved_ok [OF that(3,4)] that(1,2) l(2) have "peer_key e (fst x) \<in> dom ps"
      by blast
    then obtain v where v: "ps (peer_key e (fst x)) = Some v" by blast
    from from_peer [OF v] v show ?thesis by auto
  qed
  from ps skipped kept show ?thesis by blast
qed


theorem ledger_failure_skips_peer_witness:
  "dwh_GetDeals env_ledger_fails ''0xA'' = Inl ''context deadline exceeded'' \<and>
   (\<exists>ps. loadPeersData env_ledger_fails = Inr ps \<and> ps ''0xA'' = None \<and>
      (\<exists>point (r'::city). loadDeals (dwh_GetDeals env_ledger_fails) ''0xB'' = Inr point \<and>
         ps ''0xB'' = Some (point\<lparr>Lat := Latitude r', Lon := Longitude r'\<rparr>)))"
proof -
  let ?e = env_ledger_fails
  let ?a = "(''tcp//0xA'', [\<lparr>PublicAddr = ''10.0.0.1''\<rparr>])"
  let ?b = "(''tcp//0xB'', [\<lparr>PublicAddr = ''10.0.0.2''\<rparr>])"
  have i: "rv_Info ?e = Inr state_two_peers"
    by (simp add: env_ledger_fails_def env_two_peers_def)
  have wf: "\<forall>x \<in> set state_two_peers. wf_addr (fst x)"
    by (simp add: state_two_peers_def wf_addr_examples)
  have inj: "inj (Hex ?e)"
    by (simp add: env_ledger_fails_def env_two_peers_def inj_def)
  have fails: "dwh_GetDeals ?e ''0xA'' = Inl ''context deadline exceeded''"
    by (simp add: env_ledger_fails_def)
  have ok: "dwh_GetDeals ?e ''0xB'' = Inr [deal_b]"
    "db_City ?e (ParseIP ?e ''10.0.0.2'') = CityOk city_moscow"
    by (simp_all add: env_ledger_fails_def env_two_peers_def)
  have mem: "?a \<in> set state_two_peers" "?b \<in> set state_two_peers"
    by (simp_all add: state_two_peers_def)
  from ledger_failure_skips_peer [OF i wf inj] obtain ps where
    ps: "loadPeersData ?e = Inr ps"
    and skipped: "\<forall>x \<in> set state_two_peers. \<forall>err.
        dwh_GetDeals ?e (peer_addr ?e (fst x)) = Inl err \<longrightarrow> ps (peer_key ?e (fst x)) = None"
    and kept: "\<forall>x \<in> set state_two_peers. \<forall>srv \<in> set (snd x). \<forall>deals r.
        dwh_GetDeals ?e (peer_addr ?e (fst x)) = Inr deals \<and>
        db_City ?e (ParseIP ?e (PublicAddr srv)) = CityOk r \<longrightarrow>
        (\<exists>point (r'::city). loadDeals (dwh_GetDeals ?e) (peer_addr ?e (fst x)) = Inr point \<and>
           ps (peer_key ?e (fst x)) = Some (point\<lparr>Lat := Latitude r', Lon := Longitude r'\<rparr>))"
    by blast
  from skipped [rule_format, OF mem(1), of "''context deadline exceeded''"] fails
  have a: "ps ''0xA'' = None"
    by (simp add: peer_key_examples)
  from kept [rule_format, OF mem(2), of "\<lparr>PublicAddr = ''10.0.0.2''\<rparr>" "[deal_b]" city_moscow] ok
  have b: "\<exists>point (r'::city). loadDeals (dwh_GetDeals ?e) ''0xB'' = Inr point \<and>
      ps ''0xB'' = Some (point\<lparr>Lat := Latitude r', Lon := Longitude r'\<rparr>)"
    by (simp add: peer_key_examples)
  from ps a b have "\<exists>ps. loadPeersData ?e = Inr ps \<and> ps ''0xA'' = None \<and>
      (\<exists>point (r'::city). loadDeals (dwh_GetDeals ?e) ''0xB'' = Inr point \<and>
         ps ''0xB'' = Some (point\<lparr>Lat := Latitude r', Lon := Longitude r'\<rparr>))"
    by blast
  with fails show ?thesis by (intro conjI)
qed

text \<open>
  C9, as the code has it. Nothing is merged: a pass overwrites the entry under its key.
  When every key of the \<^verbatim>\<open>State\<close> map has the form \<^verbatim>\<open>protocol//address\<close> and no two
  of them name the same peer, the passes for different entries write under different
  keys, and the outcome of the loop (from any map \<open>ps0\<close>, so also the snapshot of the
  cycle) is the same in whatever order the entries are visited.
\<close>

theorem snapshot_order_independent:
  assumes "mset info' = mset info"
    and "\<forall>x \<in> set info. wf_addr (fst x)"
    and "distinct (map (peer_key e \<circ> fst) info)"
  shows "state_loop e info' ps0 = state_loop e info ps0 \<and>
         loadPeersData (e\<lparr>rv_Info := Inr info'\<rparr>) = loadPeersData (e\<lparr>rv_Info := Inr info\<rparr>)"
  using state_loop_permuted [OF assms]
  by (simp add: loadPeersData_def state_loop_rv_Info)


theorem snapshot_order_independent_witness:
  "mset (rev state_two_peers) = mset state_two_peers \<and>
   distinct (map (peer_key env_two_peers \<circ> fst) state_two_peers) \<and>
   loadPeersData env_two_peers_swapped = loadPeersData env_two_peers \<and>
   loadPeersData env_two_peers = Inr [''0xA'' \<mapsto> point_a, ''0xB'' \<mapsto> point_b]"
proof -
  have p: "mset (rev state_two_peers) = mset state_two_peers"
    by simp
  have wf: "\<forall>x \<in> set state_two_peers. wf_addr (fst x)"
    by (simp add: state_two_peers_def wf_addr_examples)
  have d: "distinct (map (peer_key env_two_peers \<circ> fst) state_two_peers)"
    by (simp add: state_two_peers_def peer_key_examples)
  have same: "env_two_peers\<lparr>rv_Info := Inr state_two_peers\<rparr> = env_two_peers"
    by (simp add: env_two_peers_def)
  from snapshot_order_independent [OF p wf d, of Map.empty]
  have "loadPeersData env_two_peers_swapped = loadPeersData env_two_peers"
    by (simp only: same env_two_peers_swapped_def)
  with p d loadPeersData_two_peers show ?thesis by (intro conjI)
qed

text \<open>
  C9 as the spec words it fails when one peer is listed under two keys with
  servers in two places: the entry visited last wins, so the two visiting orders of the
  same \<^verbatim>\<open>State\<close> map give two different snapshots.
\<close>

theorem snapshot_order_counterexample:
  "mset (rev state_two_protocols) = mset state_two_protocols \<and>
   loadPeersData env_two_protocols = Inr [''0xA'' \<mapsto> point_a_berlin] \<and>
   loadPeersData env_two_protocols_swapped = Inr [''0xA'' \<mapsto> point_a] \<and>
   loadPeersData env_two_protocols_swapped \<noteq> loadPeersData env_two_protocols"
proof -
  have "point_a \<noteq> point_a_berlin"
    by (simp add: point_a_def point_a_berlin_def)
  then have "[''0xA'' \<mapsto> point_a] \<noteq> [''0xA'' \<mapsto> point_a_berlin]"
    by (auto dest: map_upd_eqD1)
  then show ?thesis
    by (simp add: loadPeersData_two_protocols loadPeersData_two_protocols_swapped)
qed

section \<open>A failed geolocation lookup in the three loops\<close>

text \<open>
  C6, at the input on which the programs differ: one server whose address is not an IP
  address, so that \<^verbatim>\<open>db.City\<close> returns an error together with an empty record.
  \<^verbatim>\<open>loadPeersData\<close> of map-proxy and the loop of \<^verbatim>\<open>unnamed/part_000\<close> skip the server;
  the loop of \<^verbatim>\<open>rv-mon/main.go\<close> goes on after logging and counts the server under the
  geohash of latitude 0 and longitude 0, with an empty name.
\<close>

theorem geo_failure_policies_differ:
  "loadPeersData env_geo_fails = Inr Map.empty \<and>
   rv_mon_main_part000 enc (ParseIP env_geo_fails) (db_City env_geo_fails) state_not_an_ip =
     Inr (Map.empty, Map.empty) \<and>
   rv_mon_main enc (ParseIP env_geo_fails) (db_City env_geo_fails) state_not_an_ip =
     Inr ([enc (Finite 0) (Finite 0) \<mapsto> 1], [enc (Finite 0) (Finite 0) \<mapsto> []])"
  using loadPeersData_geo_fails
  by (simp add: rv_mon_main_def rv_mon_main_part000_def rv_mon_step_def
      rv_mon_step_part000_def count_point_def Let_def env_geo_fails_def state_not_an_ip_def
      city_zero_def)

end
